theory Spec2Isabelle
  imports Main
begin

section \<open>QuickText backend: the message store and the request handlers\<close>

text \<open>
  The development embeds \<^verbatim>\<open>server.js\<close> (the Express handlers) and \<^verbatim>\<open>schema.sql\<close>
  (the \<^verbatim>\<open>messages\<close> table). Timestamps are milliseconds since the epoch, as
  \<^verbatim>\<open>Date.now()\<close> gives them. Request fields are text or absent: \<open>None\<close> stands for a
  field that is missing from the JSON body (or a header that was not sent).
  The columns \<^verbatim>\<open>createdAt\<close> and \<^verbatim>\<open>expiresAt\<close> of the schema are the ones the handlers
  address as \<^verbatim>\<open>created_at\<close> and \<^verbatim>\<open>expires_at\<close>. A text is a list of characters and its
  length is the number \<^verbatim>\<open>String(message).length\<close> counts. The handlers are modelled from
  the parsed body on: the middleware in front of them (helmet, the JSON parser and its
  size limit, CORS) is not part of the model, and since a call to the store reports its
  failure in its result, the \<^verbatim>\<open>catch\<close> branches are not reached.
\<close>

subsection \<open>The table of schema.sql\<close>

record row =
  id_col :: int
  topic :: string
  author :: string
  code :: string
  message :: string
  created_at :: int
  expires_at :: int

text \<open>Every call the handlers make to the store is recorded, also one that fails.\<close>

datatype store_op =
    SelectByCode string
  | InsertRow string
  | SelectLive string int
  | SelectAll
  | DeleteById string

datatype store_error =
    StoreFault
  | MultipleRows
  | NoRows
  | NotNullViolation
  | ValueTooLong
  | UniqueViolation
  | InvalidText
  | OutOfRange

record store =
  rows :: "row list"
  next_id :: int
  calls :: "store_op list"

text \<open>
  What a request reads from outside the process: the random source behind \<^verbatim>\<open>nanoid\<close>,
  the handler's clock (\<^verbatim>\<open>Date.now()\<close>), the store's clock (\<^verbatim>\<open>now()\<close>, the default of
  \<^verbatim>\<open>createdAt\<close>), which calls to the store fail for reasons of their own (network,
  credentials): \<open>fault e n\<close> says that the call made when \<open>n\<close> calls were recorded fails,
  and how the store reads a text that is compared with a number column: \<open>as_bigint e t\<close>
  is the number it reads \<open>t\<close> as, and \<open>None\<close> for a text it does not accept as a number.
\<close>

record env =
  rnd :: "nat \<Rightarrow> nat"
  clock :: int
  db_clock :: int
  fault :: "nat \<Rightarrow> bool"
  as_bigint :: "string \<Rightarrow> int option"

definition record_call :: "store_op \<Rightarrow> store \<Rightarrow> store" where
  "record_call c st = st\<lparr>calls := calls st @ [c]\<rparr>"

text \<open>\<^verbatim>\<open>from('messages').select('id').eq('code', code).maybeSingle()\<close>\<close>

definition select_by_code ::
  "env \<Rightarrow> string \<Rightarrow> store \<Rightarrow> (store_error + row option) \<times> store" where
  "select_by_code e c st =
     (if fault e (length (calls st)) then (Inl StoreFault, record_call (SelectByCode c) st)
      else case filter (\<lambda>r. code r = c) (rows st) of
             [] \<Rightarrow> (Inr None, record_call (SelectByCode c) st)
           | [r] \<Rightarrow> (Inr (Some r), record_call (SelectByCode c) st)
           | _ \<Rightarrow> (Inl MultipleRows, record_call (SelectByCode c) st))"

text \<open>
  \<^verbatim>\<open>from('messages').insert({topic, author, code, message, expires_at}).select().single()\<close>
  against the table: the text columns are \<^verbatim>\<open>not null\<close>, \<^verbatim>\<open>code\<close> is \<^verbatim>\<open>varchar(7)\<close> and
  \<^verbatim>\<open>unique\<close>, \<^verbatim>\<open>id\<close> is an identity column and \<^verbatim>\<open>createdAt\<close> defaults to the store's
  \<^verbatim>\<open>now()\<close>.
\<close>

definition insert_row ::
  "env \<Rightarrow> string option \<Rightarrow> string option \<Rightarrow> string \<Rightarrow> string option \<Rightarrow> int \<Rightarrow> store
     \<Rightarrow> (store_error + row) \<times> store" where
  "insert_row e t a c m x st =
     (if fault e (length (calls st)) then (Inl StoreFault, record_call (InsertRow c) st)
      else case (t, a, m) of
        (Some tv, Some av, Some mv) \<Rightarrow>
          if length c > 7 then (Inl ValueTooLong, record_call (InsertRow c) st)
          else if c \<in> set (map code (rows st))
            then (Inl UniqueViolation, record_call (InsertRow c) st)
          else
            (Inr \<lparr>id_col = next_id st, topic = tv, author = av, code = c, message = mv,
                  created_at = db_clock e, expires_at = x\<rparr>,
             record_call (InsertRow c)
               (st\<lparr>rows := rows st @
                       [\<lparr>id_col = next_id st, topic = tv, author = av, code = c, message = mv,
                         created_at = db_clock e, expires_at = x\<rparr>],
                    next_id := next_id st + 1\<rparr>))
      | _ \<Rightarrow> (Inl NotNullViolation, record_call (InsertRow c) st))"

text \<open>
  \<^verbatim>\<open>from('messages').select(...).eq('code', code).gt('expires_at', nowIso).single()\<close>:
  \<^verbatim>\<open>single()\<close> is an error unless exactly one row matches.
\<close>

definition select_live ::
  "env \<Rightarrow> string \<Rightarrow> int \<Rightarrow> store \<Rightarrow> (store_error + row) \<times> store" where
  "select_live e c now st =
     (if fault e (length (calls st)) then (Inl StoreFault, record_call (SelectLive c now) st)
      else case filter (\<lambda>r. code r = c \<and> expires_at r > now) (rows st) of
             [] \<Rightarrow> (Inl NoRows, record_call (SelectLive c now) st)
           | [r] \<Rightarrow> (Inr r, record_call (SelectLive c now) st)
           | _ \<Rightarrow> (Inl MultipleRows, record_call (SelectLive c now) st))"

text \<open>\<^verbatim>\<open>from('messages').select(...).order('created_at', { ascending: false })\<close>\<close>

definition select_all :: "env \<Rightarrow> store \<Rightarrow> (store_error + row list) \<times> store" where
  "select_all e st =
     (if fault e (length (calls st)) then (Inl StoreFault, record_call SelectAll st)
      else (Inr (rev (sort_key created_at (rows st))), record_call SelectAll st))"

text \<open>The values of a \<^verbatim>\<open>bigint\<close> column.\<close>

definition bigint_range :: "int \<Rightarrow> bool" where
  "bigint_range i = (- (2 ^ 63) \<le> i \<and> i < 2 ^ 63)"

text \<open>
  \<^verbatim>\<open>from('messages').delete().eq('id', id)\<close>: \<^verbatim>\<open>id\<close> is the text of the path segment,
  which the store compares with the \<^verbatim>\<open>bigint\<close> column \<^verbatim>\<open>id\<close>. A text the store does
  not read as a number, or reads as a number outside the column's type, is an error of
  the call.
\<close>

definition delete_by_id :: "env \<Rightarrow> string \<Rightarrow> store \<Rightarrow> (store_error + unit) \<times> store" where
  "delete_by_id e t st =
     (if fault e (length (calls st)) then (Inl StoreFault, record_call (DeleteById t) st)
      else case as_bigint e t of
             None \<Rightarrow> (Inl InvalidText, record_call (DeleteById t) st)
           | Some i \<Rightarrow>
               if bigint_range i
                 then (Inr (), record_call (DeleteById t)
                                 (st\<lparr>rows := filter (\<lambda>r. id_col r \<noteq> i) (rows st)\<rparr>))
               else (Inl OutOfRange, record_call (DeleteById t) st))"

subsection \<open>Responses\<close>

datatype payload =
    ErrorBody string
  | WarningBody bool string
  | Created int string int
  | MessageBody int string string string int int
  | RowsBody "row list"
  | OkBody bool

record response =
  status :: nat
  body :: payload

definition json :: "nat \<Rightarrow> payload \<Rightarrow> response" where
  "json s b = \<lparr>status = s, body = b\<rparr>"

subsection \<open>JavaScript on text that may be absent\<close>

text \<open>\<^verbatim>\<open>!v\<close> is false exactly for a present, non-empty text.\<close>

definition truthy :: "string option \<Rightarrow> bool" where
  "truthy v = (case v of None \<Rightarrow> False | Some s \<Rightarrow> s \<noteq> [])"

text \<open>\<^verbatim>\<open>String(v)\<close>\<close>

definition String_js :: "string option \<Rightarrow> string" where
  "String_js v = (case v of None \<Rightarrow> ''undefined'' | Some s \<Rightarrow> s)"

subsection \<open>Code generation\<close>

definition alphabet :: string where
  "alphabet = ''0123456789ABCDEFGHIJKLMNOPQRSTUVWXYZabcdefghijklmnopqrstuvwxyz''"

text \<open>
  Modelled from the spec: \<^verbatim>\<open>customAlphabet\<close> of the nanoid package is not part of the
  sources; the spec has it draw a code of the given length, every symbol taken from the
  alphabet. The random source is a sequence of numbers; a draw uses its first \<open>n\<close>
  elements and leaves the rest for the next draw.
\<close>

definition customAlphabet :: "string \<Rightarrow> nat \<Rightarrow> (nat \<Rightarrow> nat) \<Rightarrow> string \<times> (nat \<Rightarrow> nat)" where
  "customAlphabet abc n src =
     (map (\<lambda>i. abc ! (src i mod length abc)) [0..<n], \<lambda>i. src (i + n))"

definition nanoid :: "(nat \<Rightarrow> nat) \<Rightarrow> string \<times> (nat \<Rightarrow> nat)" where
  "nanoid = customAlphabet alphabet 7"

subsection \<open>POST /api/send\<close>

record send_body =
  body_topic :: "string option"
  body_author :: "string option"
  body_message :: "string option"

text \<open>
  The \<^verbatim>\<open>while (attempts < 5)\<close> loop: \<open>Inl\<close> is the response of the early return,
  \<open>Inr\<close> the value of \<^verbatim>\<open>code\<close> when the loop is left.
\<close>

function collision_loop ::
  "env \<Rightarrow> nat \<Rightarrow> string \<Rightarrow> (nat \<Rightarrow> nat) \<Rightarrow> store \<Rightarrow> (response + string) \<times> store" where
  "collision_loop e attempts c src st =
     (if attempts < 5 then
        (case select_by_code e c st of
           (Inl existsErr, st') \<Rightarrow> (Inl (json 500 (ErrorBody ''DB error checking code'')), st')
         | (Inr None, st') \<Rightarrow> (Inr c, st')
         | (Inr (Some r), st') \<Rightarrow>
             collision_loop e (attempts + 1) (fst (nanoid src)) (snd (nanoid src)) st')
      else (Inr c, st))"
  by pat_completeness auto
termination
  by (relation "measure (\<lambda>(e, attempts, c, src, st). 5 - attempts)") auto

definition send_handler :: "env \<Rightarrow> send_body \<Rightarrow> store \<Rightarrow> response \<times> store" where
  "send_handler e req st =
     (if \<not> truthy (body_topic req) \<or> \<not> truthy (body_author req) \<or> \<not> truthy (body_message req)
        then (json 400 (ErrorBody ''Missing topic/author/message''), st)
      else if length (String_js (body_message req)) > 10000
        then (json 400 (ErrorBody ''Message too long (max 10k chars)''), st)
      else
        (case collision_loop e 0 (fst (nanoid (rnd e))) (snd (nanoid (rnd e))) st of
           (Inl resp, st') \<Rightarrow> (resp, st')
         | (Inr c, st') \<Rightarrow>
             (case insert_row e (body_topic req) (body_author req) c (body_message req)
                     (clock e + 7 * 24 * 60 * 60 * 1000) st' of
                (Inl err, st'') \<Rightarrow> (json 500 (ErrorBody ''Failed to save message''), st'')
              | (Inr data, st'') \<Rightarrow>
                  (json 200 (Created (id_col data) (code data) (expires_at data)), st''))))"

subsection \<open>POST /api/receive\<close>

record receive_body =
  body_code :: "string option"

definition receive_handler :: "env \<Rightarrow> receive_body \<Rightarrow> store \<Rightarrow> response \<times> store" where
  "receive_handler e req st =
     (if \<not> truthy (body_code req) then (json 400 (ErrorBody ''Missing code''), st)
      else
        (case select_live e (String_js (body_code req)) (clock e) st of
           (Inl err, st') \<Rightarrow> (json 404 (ErrorBody ''Invalid or expired code''), st')
         | (Inr data, st') \<Rightarrow>
             (json 200 (MessageBody (id_col data) (topic data) (author data) (message data)
                          (created_at data) (expires_at data)), st')))"

text \<open>
  Modelled from the spec: \<^verbatim>\<open>rateLimit\<close> of the express-rate-limit package is not part of
  the sources; the spec has it count the requests of each client address in a window of
  \<^verbatim>\<open>windowMs\<close> and reject the requests beyond \<^verbatim>\<open>max\<close>. The window of an address opens
  with its first request and a request at or after its end opens a new one. The limiter
  keeps, for each address, the number of requests in the open window and the window's end.
\<close>

type_synonym limiter = "string \<rightharpoonup> nat \<times> int"

definition windowMs :: int where
  "windowMs = 60 * 1000"

definition max_hits :: nat where
  "max_hits = 5"

definition increment :: "int \<Rightarrow> string \<Rightarrow> limiter \<Rightarrow> nat \<times> limiter" where
  "increment now ip lim =
     (case lim ip of
        None \<Rightarrow> (1, lim(ip \<mapsto> (1, now + windowMs)))
      | Some (n, reset) \<Rightarrow>
          if reset \<le> now then (1, lim(ip \<mapsto> (1, now + windowMs)))
          else (n + 1, lim(ip \<mapsto> (n + 1, reset))))"

definition limit_message :: payload where
  "limit_message = WarningBody False
     ''You have exceeded the limit of 5 attempts per minute. Please wait before trying again.''"

text \<open>\<open>None\<close> is \<^verbatim>\<open>next()\<close>; \<open>Some\<close> is the rejection the limiter sends itself.\<close>

definition receiveLimiter :: "int \<Rightarrow> string \<Rightarrow> limiter \<Rightarrow> response option \<times> limiter" where
  "receiveLimiter now ip lim =
     (if fst (increment now ip lim) > max_hits
        then (Some (json 429 limit_message), snd (increment now ip lim))
      else (None, snd (increment now ip lim)))"

text \<open>
  The route \<^verbatim>\<open>app.post('/api/receive', receiveLimiter, handler)\<close>: the request of the
  client at address \<open>ip\<close> reaches the limiter at time \<open>now\<close>.
\<close>

definition receive_route ::
  "int \<Rightarrow> string \<Rightarrow> env \<Rightarrow> receive_body \<Rightarrow> limiter \<times> store \<Rightarrow> response \<times> limiter \<times> store" where
  "receive_route now ip e req s =
     (case receiveLimiter now ip (fst s) of
        (Some resp, lim') \<Rightarrow> (resp, lim', snd s)
      | (None, lim') \<Rightarrow>
          (fst (receive_handler e req (snd s)), lim', snd (receive_handler e req (snd s))))"

subsection \<open>Administration\<close>

text \<open>
  \<open>admin_key\<close> is \<^verbatim>\<open>process.env.ADMIN_KEY\<close>, \<open>hdr\<close> is \<^verbatim>\<open>req.header('x-admin-key')\<close>.
  \<open>None\<close> is \<^verbatim>\<open>next()\<close>. The \<open>i\<close> of the delete route is \<^verbatim>\<open>req.params.id\<close>, a text.
\<close>

definition requireAdmin :: "string option \<Rightarrow> string option \<Rightarrow> response option" where
  "requireAdmin admin_key hdr =
     (if \<not> truthy admin_key \<or> hdr \<noteq> admin_key
        then Some (json 401 (ErrorBody ''Unauthorized''))
      else None)"

definition admin_list ::
  "string option \<Rightarrow> string option \<Rightarrow> env \<Rightarrow> store \<Rightarrow> response \<times> store" where
  "admin_list admin_key hdr e st =
     (case requireAdmin admin_key hdr of
        Some resp \<Rightarrow> (resp, st)
      | None \<Rightarrow>
          (case select_all e st of
             (Inl err, st') \<Rightarrow> (json 500 (ErrorBody ''DB error''), st')
           | (Inr data, st') \<Rightarrow> (json 200 (RowsBody data), st')))"

definition admin_delete ::
  "string option \<Rightarrow> string option \<Rightarrow> env \<Rightarrow> string \<Rightarrow> store \<Rightarrow> response \<times> store" where
  "admin_delete admin_key hdr e i st =
     (case requireAdmin admin_key hdr of
        Some resp \<Rightarrow> (resp, st)
      | None \<Rightarrow>
          (case delete_by_id e i st of
             (Inl err, st') \<Rightarrow> (json 500 (ErrorBody ''DB error''), st')
           | (Inr u, st') \<Rightarrow> (json 200 (OkBody True), st')))"

subsection \<open>Runs of the receive route\<close>

text \<open>
  A receive request as the route sees it: the client address, the time it reaches the
  limiter, what the handler reads from outside, and the body.
\<close>

record attempt =
  addr :: string
  at :: int
  env_of :: env
  body_of :: receive_body

text \<open>The limiter and the store after a sequence of receive requests, served in order.\<close>

fun receive_all :: "attempt list \<Rightarrow> limiter \<times> store \<Rightarrow> limiter \<times> store" where
  "receive_all [] s = s"
| "receive_all (x # xs) s =
     receive_all xs (snd (receive_route (at x) (addr x) (env_of x) (body_of x) s))"

text \<open>The address has a window that has not ended at time \<open>now\<close>.\<close>

definition window_open :: "limiter \<Rightarrow> string \<Rightarrow> int \<Rightarrow> bool" where
  "window_open lim ip now = (case lim ip of None \<Rightarrow> False | Some (n, reset) \<Rightarrow> now < reset)"

subsection \<open>Auxiliary notions for the proofs\<close>

text \<open>
  A send request that passes the two validation steps of the handler: the three fields
  are present and non-empty and the message has at most 10000 characters.
\<close>

definition valid_send :: "send_body \<Rightarrow> bool" where
  "valid_send req = (truthy (body_topic req) \<and> truthy (body_author req) \<and>
     truthy (body_message req) \<and> length (String_js (body_message req)) \<le> 10000)"

text \<open>The store reads the text as a number of the \<^verbatim>\<open>bigint\<close> column.\<close>

definition reads_bigint :: "env \<Rightarrow> string \<Rightarrow> bool" where
  "reads_bigint e t = (case as_bigint e t of None \<Rightarrow> False | Some i \<Rightarrow> bigint_range i)"

text \<open>
  What the loop leaves behind when it is entered with \<open>n\<close> attempts made, candidate \<open>c\<close>
  and store \<open>st\<close>: it only adds checks \<open>cs\<close> to the recorded calls; an early return is
  the check error; otherwise the code it leaves is either the last one checked, found
  absent, or the loop ran out of attempts with every checked code present.
\<close>

definition loop_post ::
  "nat \<Rightarrow> string \<Rightarrow> store \<Rightarrow> (response + string) \<times> store \<Rightarrow> bool" where
  "loop_post n c st out =
     (\<exists>cs. calls (snd out) = calls st @ map SelectByCode cs \<and> length cs \<le> 5 - n \<and>
        rows (snd out) = rows st \<and> next_id (snd out) = next_id st \<and>
        (case fst out of
           Inl resp \<Rightarrow> resp = json 500 (ErrorBody ''DB error checking code'') \<and> cs \<noteq> []
         | Inr c' \<Rightarrow>
             (c' = c \<or> (\<exists>s. c' = fst (nanoid s))) \<and>
             (cs \<noteq> [] \<and> last cs = c' \<and> c' \<notin> set (map code (rows st)) \<or>
              length cs = 5 - n \<and> set cs \<subseteq> set (map code (rows st)))))"

subsection \<open>Concrete requests, stores and environments\<close>

text \<open>
  The reading of numbers in the concrete environments: decimal digits, with a minus sign
  in front or not.
\<close>

fun digits :: "string \<Rightarrow> nat \<Rightarrow> nat option" where
  "digits [] n = Some n"
| "digits (c # cs) n =
     (if 48 \<le> (of_char c :: nat) \<and> (of_char c :: nat) \<le> 57
        then digits cs (10 * n + (of_char c - 48))
      else None)"

definition decimal :: "string \<Rightarrow> int option" where
  "decimal s =
     (case s of
        [] \<Rightarrow> None
      | c # cs \<Rightarrow>
          if c = CHR ''-'' then (if cs = [] then None else map_option (\<lambda>n. - int n) (digits cs 0))
          else map_option int (digits s 0))"

definition req0 :: send_body where
  "req0 = \<lparr>body_topic = Some ''t'', body_author = Some ''a'', body_message = Some ''hello''\<rparr>"

definition long_body :: "nat \<Rightarrow> send_body" where
  "long_body n = \<lparr>body_topic = Some ''t'', body_author = Some ''a'',
                   body_message = Some (replicate n (CHR ''x''))\<rparr>"

definition row1 :: row where
  "row1 = \<lparr>id_col = 1, topic = ''t'', author = ''a'', code = ''0000000'',
            message = ''hello'', created_at = 0, expires_at = 604800000\<rparr>"

definition store0 :: store where
  "store0 = \<lparr>rows = [], next_id = 1, calls = []\<rparr>"

definition store1 :: store where
  "store1 = \<lparr>rows = [row1], next_id = 2, calls = []\<rparr>"

text \<open>The store answers every call; the first five codes drawn are 0000000, the sixth 1111111.\<close>

definition env_fresh :: env where
  "env_fresh = \<lparr>rnd = (\<lambda>i. if i < 35 then 0 else 1), clock = 1000, db_clock = 1025,
                 fault = (\<lambda>n. False),
     as_bigint = decimal\<rparr>"

text \<open>Every code drawn is 0000000.\<close>

definition env_same :: env where
  "env_same = \<lparr>rnd = (\<lambda>i. 0), clock = 1000, db_clock = 1025, fault = (\<lambda>n. False),
     as_bigint = decimal\<rparr>"

text \<open>The first two codes drawn are 0000000, the third 1111111.\<close>

definition env_third :: env where
  "env_third = \<lparr>rnd = (\<lambda>i. if i < 14 then 0 else 1), clock = 1000, db_clock = 1025,
                 fault = (\<lambda>n. False),
     as_bigint = decimal\<rparr>"

text \<open>The first code drawn is 3AHOVcj.\<close>

definition env_mixed :: env where
  "env_mixed = \<lparr>rnd = (\<lambda>i. 7 * i + 3), clock = 1000, db_clock = 1000, fault = (\<lambda>n. False),
     as_bigint = decimal\<rparr>"

text \<open>The store answers every call and both clocks read \<open>t\<close>.\<close>

definition env_clock :: "int \<Rightarrow> env" where
  "env_clock t = \<lparr>rnd = (\<lambda>i. 0), clock = t, db_clock = t, fault = (\<lambda>n. False),
     as_bigint = decimal\<rparr>"

definition recv :: "string \<Rightarrow> receive_body" where
  "recv c = \<lparr>body_code = Some c\<rparr>"

text \<open>A receive request of the client at 10.0.0.7 at time \<open>t\<close>.\<close>

definition knock :: "int \<Rightarrow> attempt" where
  "knock t = \<lparr>addr = ''10.0.0.7'', at = t, env_of = env_clock t, body_of = recv ''0000000''\<rparr>"

section \<open>Properties\<close>

subsection \<open>Basic facts\<close>

lemma status_json [simp]: "status (json s b) = s" and body_json [simp]: "body (json s b) = b"
  by (simp_all add: json_def)

lemma rows_record_call [simp]: "rows (record_call c st) = rows st"
  and calls_record_call [simp]: "calls (record_call c st) = calls st @ [c]"
  and next_id_record_call [simp]: "next_id (record_call c st) = next_id st"
  by (simp_all add: record_call_def)

declare collision_loop.simps [simp del]

lemma select_by_code_store:
  "snd (select_by_code e c st) = record_call (SelectByCode c) st"
  by (simp add: select_by_code_def split: list.splits)

lemma select_by_code_None:
  "fst (select_by_code e c st) = Inr None \<Longrightarrow> c \<notin> set (map code (rows st))"
  by (auto simp add: select_by_code_def filter_empty_conv split: if_splits list.splits)

lemma select_by_code_Some:
  "fst (select_by_code e c st) = Inr (Some r) \<Longrightarrow> c \<in> set (map code (rows st))"
proof -
  assume a: "fst (select_by_code e c st) = Inr (Some r)"
  then have "filter (\<lambda>r. code r = c) (rows st) = [r]"
    by (auto simp add: select_by_code_def split: if_splits list.splits)
  then have "r \<in> set (filter (\<lambda>r. code r = c) (rows st))" by simp
  then show ?thesis by auto
qed

text \<open>The four ways through one turn of the loop.\<close>

lemma collision_loop_done:
  "\<not> attempts < 5 \<Longrightarrow> collision_loop e attempts c src st = (Inr c, st)"
  by (simp add: collision_loop.simps)

lemma collision_loop_error:
  "attempts < 5 \<Longrightarrow> fst (select_by_code e c st) = Inl err \<Longrightarrow>
   collision_loop e attempts c src st =
     (Inl (json 500 (ErrorBody ''DB error checking code'')), record_call (SelectByCode c) st)"
  using select_by_code_store [of e c st]
  by (cases "select_by_code e c st") (simp add: collision_loop.simps [of e attempts])

lemma collision_loop_break:
  "attempts < 5 \<Longrightarrow> fst (select_by_code e c st) = Inr None \<Longrightarrow>
   collision_loop e attempts c src st = (Inr c, record_call (SelectByCode c) st)"
  using select_by_code_store [of e c st]
  by (cases "select_by_code e c st") (simp add: collision_loop.simps [of e attempts])

lemma collision_loop_again:
  "attempts < 5 \<Longrightarrow> fst (select_by_code e c st) = Inr (Some r) \<Longrightarrow>
   collision_loop e attempts c src st =
     collision_loop e (attempts + 1) (fst (nanoid src)) (snd (nanoid src))
       (record_call (SelectByCode c) st)"
  using select_by_code_store [of e c st]
  by (cases "select_by_code e c st") (simp add: collision_loop.simps [of e attempts])

lemma loop_post_step:
  assumes "n < 5" and "c \<in> set (map code (rows st))"
    and "loop_post (n + 1) (fst (nanoid src)) (record_call (SelectByCode c) st) out"
  shows "loop_post n c st out"
proof -
  from assms(3) obtain cs where cs:
    "calls (snd out) = calls (record_call (SelectByCode c) st) @ map SelectByCode cs"
    "length cs \<le> 5 - (n + 1)"
    "rows (snd out) = rows (record_call (SelectByCode c) st)"
    "next_id (snd out) = next_id (record_call (SelectByCode c) st)"
    and post: "case fst out of
           Inl resp \<Rightarrow> resp = json 500 (ErrorBody ''DB error checking code'') \<and> cs \<noteq> []
         | Inr c' \<Rightarrow>
             (c' = fst (nanoid src) \<or> (\<exists>s. c' = fst (nanoid s))) \<and>
             (cs \<noteq> [] \<and> last cs = c' \<and>
                c' \<notin> set (map code (rows (record_call (SelectByCode c) st))) \<or>
              length cs = 5 - (n + 1) \<and>
                set cs \<subseteq> set (map code (rows (record_call (SelectByCode c) st))))"
    unfolding loop_post_def by blast
  have len: "length (c # cs) \<le> 5 - n" using cs(2) assms(1) by simp
  have k1: "calls (snd out) = calls st @ map SelectByCode (c # cs)" using cs(1) by simp
  have k2: "rows (snd out) = rows st" using cs(3) by simp
  have k3: "next_id (snd out) = next_id st" using cs(4) by simp
  have "case fst out of
           Inl resp \<Rightarrow> resp = json 500 (ErrorBody ''DB error checking code'') \<and> c # cs \<noteq> []
         | Inr c' \<Rightarrow>
             (c' = c \<or> (\<exists>s. c' = fst (nanoid s))) \<and>
             (c # cs \<noteq> [] \<and> last (c # cs) = c' \<and> c' \<notin> set (map code (rows st)) \<or>
              length (c # cs) = 5 - n \<and> set (c # cs) \<subseteq> set (map code (rows st)))"
  proof (cases "fst out")
    case (Inl resp)
    then show ?thesis using post by simp
  next
    case (Inr c')
    with post have
      "(c' = fst (nanoid src) \<or> (\<exists>s. c' = fst (nanoid s))) \<and>
             (cs \<noteq> [] \<and> last cs = c' \<and> c' \<notin> set (map code (rows st)) \<or>
              length cs = 5 - (n + 1) \<and> set cs \<subseteq> set (map code (rows st)))"
      by simp
    with assms(1,2) have
      "(c' = c \<or> (\<exists>s. c' = fst (nanoid s))) \<and>
       (c # cs \<noteq> [] \<and> last (c # cs) = c' \<and> c' \<notin> set (map code (rows st)) \<or>
        length (c # cs) = 5 - n \<and> set (c # cs) \<subseteq> set (map code (rows st)))"
      by auto
    with Inr show ?thesis by simp
  qed
  with k1 k2 k3 len show ?thesis
    unfolding loop_post_def by blast
qed

lemma collision_loop_post: "loop_post n c st (collision_loop e n c src st)"
proof (induction e n c src st rule: collision_loop.induct)
  case (1 e attempts c src st)
  show ?case
  proof (cases "attempts < 5")
    case False
    then show ?thesis
      by (simp add: collision_loop_done loop_post_def)
  next
    case True
    show ?thesis
    proof (cases "fst (select_by_code e c st)")
      case (Inl err)
      from True show ?thesis
        unfolding loop_post_def collision_loop_error [OF True Inl]
        by (intro exI [of _ "[c]"]) simp
    next
      case (Inr found)
      show ?thesis
      proof (cases found)
        case None
        with Inr have n: "fst (select_by_code e c st) = Inr None" by simp
        from True select_by_code_None [OF n] show ?thesis
          unfolding loop_post_def collision_loop_break [OF True n]
          by (intro exI [of _ "[c]"]) simp
      next
        case (Some r)
        with Inr have f: "fst (select_by_code e c st) = Inr (Some r)" by simp
        have mem: "c \<in> set (map code (rows st))" by (rule select_by_code_Some [OF f])
        have "loop_post (attempts + 1) (fst (nanoid src)) (record_call (SelectByCode c) st)
                (collision_loop e (attempts + 1) (fst (nanoid src)) (snd (nanoid src))
                   (record_call (SelectByCode c) st))"
          using "1.IH" [OF True _ Inr Some, of "snd (select_by_code e c st)"]
            select_by_code_store [of e c st] Inr
          by (cases "select_by_code e c st") simp
        then show ?thesis
          unfolding collision_loop_again [OF True f]
          by (rule loop_post_step [OF True mem])
      qed
    qed
  qed
qed


lemma length_alphabet: "length alphabet = 62"
  by (simp add: alphabet_def)

lemma distinct_alphabet: "distinct alphabet"
  by (simp add: alphabet_def)

lemma nanoid_length: "length (fst (nanoid s)) = 7"
  by (simp add: nanoid_def customAlphabet_def)

lemma nanoid_symbols: "set (fst (nanoid s)) \<subseteq> set alphabet"
proof
  fix x assume "x \<in> set (fst (nanoid s))"
  then obtain i where "x = alphabet ! (s i mod length alphabet)"
    by (auto simp add: nanoid_def customAlphabet_def)
  moreover have "s i mod length alphabet < length alphabet"
    by (simp add: length_alphabet)
  ultimately show "x \<in> set alphabet" by simp
qed

lemma insert_row_rejected:
  "fault e (length (calls st)) \<or> c \<in> set (map code (rows st)) \<Longrightarrow>
   \<exists>err. insert_row e t a c m x st = (Inl err, record_call (InsertRow c) st)"
  by (auto simp add: insert_row_def split: option.splits)

lemma insert_row_stored:
  "\<not> fault e (length (calls st)) \<Longrightarrow> c \<notin> set (map code (rows st)) \<Longrightarrow> length c \<le> 7 \<Longrightarrow>
   insert_row e (Some tv) (Some av) c (Some mv) x st =
     (Inr \<lparr>id_col = next_id st, topic = tv, author = av, code = c, message = mv,
           created_at = db_clock e, expires_at = x\<rparr>,
      record_call (InsertRow c)
        (st\<lparr>rows := rows st @
                [\<lparr>id_col = next_id st, topic = tv, author = av, code = c, message = mv,
                  created_at = db_clock e, expires_at = x\<rparr>],
             next_id := next_id st + 1\<rparr>))"
  by (auto simp add: insert_row_def)

lemma truthy_Some: "truthy v \<Longrightarrow> \<exists>s. v = Some s \<and> s \<noteq> []"
  by (cases v) (simp_all add: truthy_def)

lemma send_handler_cases [consumes 1, case_names check_failed insert_failed created]:
  assumes "valid_send req"
  obtains
    (check_failed) cs where
      "fst (send_handler e req st) = json 500 (ErrorBody ''DB error checking code'')"
      "calls (snd (send_handler e req st)) = calls st @ map SelectByCode cs"
      "rows (snd (send_handler e req st)) = rows st" "cs \<noteq> []" "length cs \<le> 5"
  | (insert_failed) cs c where
      "fst (send_handler e req st) = json 500 (ErrorBody ''Failed to save message'')"
      "calls (snd (send_handler e req st)) = calls st @ map SelectByCode cs @ [InsertRow c]"
      "rows (snd (send_handler e req st)) = rows st"
      "fault e (length (calls st) + length cs) \<or> c \<in> set (map code (rows st))"
      "length cs \<le> 5"
  | (created) cs c tv av mv where
      "fst (send_handler e req st) = json 200 (Created (next_id st) c (clock e + 604800000))"
      "calls (snd (send_handler e req st)) = calls st @ map SelectByCode cs @ [InsertRow c]"
      "rows (snd (send_handler e req st)) = rows st @
         [\<lparr>id_col = next_id st, topic = tv, author = av, code = c, message = mv,
           created_at = db_clock e, expires_at = clock e + 604800000\<rparr>]"
      "body_topic req = Some tv" "body_author req = Some av" "body_message req = Some mv"
      "c \<notin> set (map code (rows st))" "length c = 7" "set c \<subseteq> set alphabet"
      "cs \<noteq> [] \<and> last cs = c \<or> length cs = 5 \<and> set cs \<subseteq> set (map code (rows st))"
      "length cs \<le> 5"
proof -
  let ?L = "collision_loop e 0 (fst (nanoid (rnd e))) (snd (nanoid (rnd e))) st"
  from assms obtain tv av mv where f:
    "body_topic req = Some tv" "body_author req = Some av" "body_message req = Some mv"
    unfolding valid_send_def by (blast dest: truthy_Some)
  have unf: "send_handler e req st =
     (case ?L of
        (Inl resp, st') \<Rightarrow> (resp, st')
      | (Inr c, st') \<Rightarrow>
          (case insert_row e (body_topic req) (body_author req) c (body_message req)
                  (clock e + 7 * 24 * 60 * 60 * 1000) st' of
             (Inl err, st'') \<Rightarrow> (json 500 (ErrorBody ''Failed to save message''), st'')
           | (Inr data, st'') \<Rightarrow>
               (json 200 (Created (id_col data) (code data) (expires_at data)), st'')))"
    using assms unfolding valid_send_def send_handler_def by simp
  from collision_loop_post [of 0 "fst (nanoid (rnd e))" st e "snd (nanoid (rnd e))"]
  obtain cs where cs:
    "calls (snd ?L) = calls st @ map SelectByCode cs" "length cs \<le> 5"
    "rows (snd ?L) = rows st" "next_id (snd ?L) = next_id st"
    and post: "case fst ?L of
           Inl resp \<Rightarrow> resp = json 500 (ErrorBody ''DB error checking code'') \<and> cs \<noteq> []
         | Inr c' \<Rightarrow>
             (c' = fst (nanoid (rnd e)) \<or> (\<exists>s. c' = fst (nanoid s))) \<and>
             (cs \<noteq> [] \<and> last cs = c' \<and> c' \<notin> set (map code (rows st)) \<or>
              length cs = 5 - 0 \<and> set cs \<subseteq> set (map code (rows st)))"
    unfolding loop_post_def by auto
  obtain res st1 where L: "?L = (res, st1)" by (cases ?L)
  show thesis
  proof (cases res)
    case (Inl resp)
    with post L have "resp = json 500 (ErrorBody ''DB error checking code'')" "cs \<noteq> []"
      by simp_all
    with Inl L unf cs show thesis
      by (intro check_failed [of cs]) simp_all
  next
    case (Inr c)
    with post L have c:
      "c = fst (nanoid (rnd e)) \<or> (\<exists>s. c = fst (nanoid s))"
      "cs \<noteq> [] \<and> last cs = c \<and> c \<notin> set (map code (rows st)) \<or>
       length cs = 5 \<and> set cs \<subseteq> set (map code (rows st))"
      by simp_all
    from c(1) have len: "length c = 7" and sym: "set c \<subseteq> set alphabet"
      using nanoid_length nanoid_symbols by auto
    from L cs have st1: "calls st1 = calls st @ map SelectByCode cs" "rows st1 = rows st"
      "next_id st1 = next_id st" by simp_all
    show thesis
    proof (cases "fault e (length (calls st1)) \<or> c \<in> set (map code (rows st1))")
      case True
      from insert_row_rejected [OF True] obtain err where
        "insert_row e (body_topic req) (body_author req) c (body_message req)
           (clock e + 7 * 24 * 60 * 60 * 1000) st1 = (Inl err, record_call (InsertRow c) st1)"
        by blast
      with unf L Inr have
        "send_handler e req st =
           (json 500 (ErrorBody ''Failed to save message''), record_call (InsertRow c) st1)"
        by simp
      with st1 True cs(2) show thesis
        by (intro insert_failed [of cs c]) simp_all
    next
      case False
      then have nf: "\<not> fault e (length (calls st1))" and nm: "c \<notin> set (map code (rows st1))"
        by simp_all
      have "length c \<le> 7" using len by simp
      from insert_row_stored [OF nf nm this, of tv av mv "clock e + 7 * 24 * 60 * 60 * 1000"]
        unf L Inr f
      have "send_handler e req st =
         (json 200 (Created (next_id st1) c (clock e + 604800000)),
          record_call (InsertRow c)
            (st1\<lparr>rows := rows st1 @
                [\<lparr>id_col = next_id st1, topic = tv, author = av, code = c, message = mv,
                  created_at = db_clock e, expires_at = clock e + 604800000\<rparr>],
             next_id := next_id st1 + 1\<rparr>))"
        by simp
      with st1 f nm len sym c(2) cs(2) show thesis
        by (intro created [of c cs tv av mv]) simp_all
    qed
  qed
qed

lemma send_handler_invalid:
  "\<not> valid_send req \<Longrightarrow> status (fst (send_handler e req st)) = 400 \<and> snd (send_handler e req st) = st"
  by (auto simp add: valid_send_def send_handler_def)

lemma select_by_code_absent:
  "\<not> fault e (length (calls st)) \<Longrightarrow> c \<notin> set (map code (rows st)) \<Longrightarrow>
   fst (select_by_code e c st) = Inr None"
proof -
  assume nf: "\<not> fault e (length (calls st))" and "c \<notin> set (map code (rows st))"
  then have "filter (\<lambda>r. code r = c) (rows st) = []"
    by (auto simp add: filter_empty_conv)
  with nf show ?thesis by (simp add: select_by_code_def)
qed

lemma send_handler_first_try:
  assumes "valid_send req" and "\<not> fault e (length (calls st))"
    and "\<not> fault e (length (calls st) + 1)"
    and "fst (nanoid (rnd e)) \<notin> set (map code (rows st))"
  shows "fst (send_handler e req st) =
           json 200 (Created (next_id st) (fst (nanoid (rnd e))) (clock e + 604800000))"
proof -
  let ?c = "fst (nanoid (rnd e))"
  from assms(1) obtain tv av mv where f:
    "body_topic req = Some tv" "body_author req = Some av" "body_message req = Some mv"
    unfolding valid_send_def by (blast dest: truthy_Some)
  have L: "collision_loop e 0 ?c (snd (nanoid (rnd e))) st = (Inr ?c, record_call (SelectByCode ?c) st)"
    by (rule collision_loop_break) (simp_all add: select_by_code_absent [OF assms(2,4)])
  have "insert_row e (Some tv) (Some av) ?c (Some mv) (clock e + 7 * 24 * 60 * 60 * 1000)
          (record_call (SelectByCode ?c) st) =
     (Inr \<lparr>id_col = next_id st, topic = tv, author = av, code = ?c, message = mv,
           created_at = db_clock e, expires_at = clock e + 7 * 24 * 60 * 60 * 1000\<rparr>,
      record_call (InsertRow ?c)
        ((record_call (SelectByCode ?c) st)\<lparr>rows := rows st @
                [\<lparr>id_col = next_id st, topic = tv, author = av, code = ?c, message = mv,
                  created_at = db_clock e, expires_at = clock e + 7 * 24 * 60 * 60 * 1000\<rparr>],
             next_id := next_id st + 1\<rparr>))"
    using insert_row_stored [of e "record_call (SelectByCode ?c) st" ?c tv av mv
        "clock e + 7 * 24 * 60 * 60 * 1000"] assms(3,4) nanoid_length [of "rnd e"]
    by simp
  with L f assms(1) show ?thesis
    unfolding valid_send_def send_handler_def by simp
qed


text \<open>An insert among recorded calls that are checks followed by one insert is the last call.\<close>

lemma checks_no_insert: "map SelectByCode cs = ops @ [InsertRow c] @ rest \<Longrightarrow> False"
proof -
  assume "map SelectByCode cs = ops @ [InsertRow c] @ rest"
  then have "InsertRow c \<in> set (map SelectByCode cs)" by simp
  then show False by auto
qed

lemma checks_then_insert:
  assumes "map SelectByCode cs @ [InsertRow c'] = ops @ [InsertRow c] @ rest"
  shows "rest = [] \<and> c' = c \<and> ops = map SelectByCode cs"
proof (cases rest rule: rev_cases)
  case Nil
  with assms show ?thesis by simp
next
  case (snoc ys y)
  with assms have "map SelectByCode cs @ [InsertRow c'] = (ops @ [InsertRow c] @ ys) @ [y]"
    by simp
  then have "map SelectByCode cs = ops @ [InsertRow c] @ ys" by (simp only: append1_eq_conv)
  then show ?thesis using checks_no_insert by blast
qed

subsection \<open>Concrete runs of the send handler\<close>

lemma valid_req0: "valid_send req0"
  by (simp add: valid_send_def req0_def truthy_def String_js_def)

lemma run_third:
  "send_handler env_third req0 store1 =
     (json 200 (Created 2 ''1111111'' 604801000),
      \<lparr>rows = [row1,
               \<lparr>id_col = 2, topic = ''t'', author = ''a'', code = ''1111111'',
                message = ''hello'', created_at = 1025, expires_at = 604801000\<rparr>],
       next_id = 3,
       calls = [SelectByCode ''0000000'', SelectByCode ''0000000'',
                SelectByCode ''1111111'', InsertRow ''1111111'']\<rparr>)"
  by code_simp

lemma run_same:
  "send_handler env_same req0 store1 =
     (json 500 (ErrorBody ''Failed to save message''),
      \<lparr>rows = [row1], next_id = 2,
       calls = [SelectByCode ''0000000'', SelectByCode ''0000000'', SelectByCode ''0000000'',
                SelectByCode ''0000000'', SelectByCode ''0000000'', InsertRow ''0000000'']\<rparr>)"
  by code_simp

lemma run_fresh:
  "send_handler env_fresh req0 store0 =
     (json 200 (Created 1 ''0000000'' 604801000),
      \<lparr>rows = [\<lparr>id_col = 1, topic = ''t'', author = ''a'', code = ''0000000'',
                message = ''hello'', created_at = 1025, expires_at = 604801000\<rparr>],
       next_id = 2, calls = [SelectByCode ''0000000'', InsertRow ''0000000'']\<rparr>)"
  by code_simp

lemma run_mixed:
  "send_handler env_mixed req0 store1 =
     (json 200 (Created 2 ''3AHOVcj'' 604801000),
      \<lparr>rows = [row1,
               \<lparr>id_col = 2, topic = ''t'', author = ''a'', code = ''3AHOVcj'',
                message = ''hello'', created_at = 1000, expires_at = 604801000\<rparr>],
       next_id = 3, calls = [SelectByCode ''3AHOVcj'', InsertRow ''3AHOVcj'']\<rparr>)"
  by code_simp

subsection \<open>Sending: collisions\<close>

text \<open>
  C1, as the handler has it. A valid send never ends in a collision-exhausted error: it
  ends in 200, in 500 "DB error checking code" or in 500 "Failed to save message". When it
  does not end in 200 no row is persisted. Whatever the outcome, the handler makes at most
  5 checks and after them at most one insert, and nothing else. When it ends in 200
  exactly one row is added, its code is one the store held no row for, and the inserted
  code is the one the last check looked for, unless the five checks all found a row.
\<close>

theorem send_collision_outcomes:
  assumes "valid_send req" and "send_handler e req st = (resp, st')"
  shows "(resp = json 500 (ErrorBody ''DB error checking code'') \<or>
          resp = json 500 (ErrorBody ''Failed to save message'') \<or> status resp = 200) \<and>
         (status resp \<noteq> 200 \<longrightarrow> rows st' = rows st) \<and>
         (\<exists>cs. length cs \<le> 5 \<and>
            (calls st' = calls st @ map SelectByCode cs \<or>
             (\<exists>c. calls st' = calls st @ map SelectByCode cs @ [InsertRow c]))) \<and>
         (status resp = 200 \<longrightarrow>
            (\<exists>r cs. length cs \<le> 5 \<and> rows st' = rows st @ [r] \<and>
               code r \<notin> set (map code (rows st)) \<and>
               body resp = Created (id_col r) (code r) (expires_at r) \<and>
               calls st' = calls st @ map SelectByCode cs @ [InsertRow (code r)] \<and>
               (cs \<noteq> [] \<and> last cs = code r \<or>
                length cs = 5 \<and> set cs \<subseteq> set (map code (rows st)))))"
  using assms(1)
proof (cases rule: send_handler_cases [where e = e and st = st])
  case (check_failed cs)
  with assms(2) have "length cs \<le> 5 \<and> calls st' = calls st @ map SelectByCode cs" by simp
  then have "\<exists>cs. length cs \<le> 5 \<and>
            (calls st' = calls st @ map SelectByCode cs \<or>
             (\<exists>c. calls st' = calls st @ map SelectByCode cs @ [InsertRow c]))"
    by blast
  with check_failed assms(2) show ?thesis by simp
next
  case (insert_failed cs c)
  with assms(2) have
    "length cs \<le> 5 \<and> calls st' = calls st @ map SelectByCode cs @ [InsertRow c]" by simp
  then have "\<exists>cs. length cs \<le> 5 \<and>
            (calls st' = calls st @ map SelectByCode cs \<or>
             (\<exists>c. calls st' = calls st @ map SelectByCode cs @ [InsertRow c]))"
    by blast
  with insert_failed assms(2) show ?thesis by simp
next
  case (created cs c tv av mv)
  let ?r = "\<lparr>id_col = next_id st, topic = tv, author = av, code = c, message = mv,
           created_at = db_clock e, expires_at = clock e + 604800000\<rparr>"
  from created assms(2) have r:
    "length cs \<le> 5 \<and> rows st' = rows st @ [?r] \<and> code ?r \<notin> set (map code (rows st)) \<and>
     body resp = Created (id_col ?r) (code ?r) (expires_at ?r) \<and>
     calls st' = calls st @ map SelectByCode cs @ [InsertRow (code ?r)] \<and>
     (cs \<noteq> [] \<and> last cs = code ?r \<or> length cs = 5 \<and> set cs \<subseteq> set (map code (rows st)))"
    by simp
  then have 1: "\<exists>r cs. length cs \<le> 5 \<and> rows st' = rows st @ [r] \<and>
               code r \<notin> set (map code (rows st)) \<and>
               body resp = Created (id_col r) (code r) (expires_at r) \<and>
               calls st' = calls st @ map SelectByCode cs @ [InsertRow (code r)] \<and>
               (cs \<noteq> [] \<and> last cs = code r \<or>
                length cs = 5 \<and> set cs \<subseteq> set (map code (rows st)))"
    by blast
  from r have "length cs \<le> 5 \<and> calls st' = calls st @ map SelectByCode cs @ [InsertRow c]"
    by simp
  then have 2: "\<exists>cs. length cs \<le> 5 \<and>
            (calls st' = calls st @ map SelectByCode cs \<or>
             (\<exists>c. calls st' = calls st @ map SelectByCode cs @ [InsertRow c]))"
    by blast
  from created assms(2) have "status resp = 200" by simp
  with 1 2 show ?thesis by simp
qed

theorem send_collision_outcomes_witness:
  "valid_send req0 \<and>
   send_handler env_third req0 store1 =
     (json 200 (Created 2 ''1111111'' 604801000),
      \<lparr>rows = [row1,
               \<lparr>id_col = 2, topic = ''t'', author = ''a'', code = ''1111111'',
                message = ''hello'', created_at = 1025, expires_at = 604801000\<rparr>],
       next_id = 3,
       calls = [SelectByCode ''0000000'', SelectByCode ''0000000'',
                SelectByCode ''1111111'', InsertRow ''1111111'']\<rparr>) \<and>
   (\<exists>r cs. length cs \<le> 5 \<and>
      [row1,
       \<lparr>id_col = 2, topic = ''t'', author = ''a'', code = ''1111111'',
        message = ''hello'', created_at = 1025, expires_at = 604801000\<rparr>] =
        rows store1 @ [r] \<and>
      code r \<notin> set (map code (rows store1)) \<and>
      [SelectByCode ''0000000'', SelectByCode ''0000000'',
       SelectByCode ''1111111'', InsertRow ''1111111''] =
        calls store1 @ map SelectByCode cs @ [InsertRow (code r)] \<and>
      (cs \<noteq> [] \<and> last cs = code r \<or>
       length cs = 5 \<and> set cs \<subseteq> set (map code (rows store1))))"
  using send_collision_outcomes [OF valid_req0 run_third] valid_req0 run_third
  by simp

text \<open>
  C1 as stated fails: the store holds a row with code 0000000, the five checks all look
  for 0000000 and find it, the handler draws 1111111, inserts it without a check and
  answers 200.
\<close>

theorem send_exhausted_counterexample:
  "send_handler env_fresh req0 store1 =
     (json 200 (Created 2 ''1111111'' 604801000),
      \<lparr>rows = [row1,
               \<lparr>id_col = 2, topic = ''t'', author = ''a'', code = ''1111111'',
                message = ''hello'', created_at = 1025, expires_at = 604801000\<rparr>],
       next_id = 3,
       calls = [SelectByCode ''0000000'', SelectByCode ''0000000'', SelectByCode ''0000000'',
                SelectByCode ''0000000'', SelectByCode ''0000000'', InsertRow ''1111111'']\<rparr>)"
  by code_simp

subsection \<open>Sending: a duplicate code at the insert\<close>

text \<open>
  C2, as the handler has it. When a valid send makes an insert with a code the store
  already holds a row for, the handler answers 500 "Failed to save message"; the calls it
  made before that insert are checks only, at most 5, it makes no call after it, and no
  row is persisted.
\<close>

theorem send_duplicate_insert_fatal:
  assumes "valid_send req" and "send_handler e req st = (resp, st')"
    and "calls st' = calls st @ ops @ [InsertRow c] @ rest"
    and "c \<in> set (map code (rows st))"
  shows "resp = json 500 (ErrorBody ''Failed to save message'') \<and> rows st' = rows st \<and>
         rest = [] \<and> (\<exists>cs. ops = map SelectByCode cs \<and> length cs \<le> 5)"
  using assms(1)
proof (cases rule: send_handler_cases [where e = e and st = st])
  case (check_failed cs)
  with assms(2,3) have "map SelectByCode cs = ops @ [InsertRow c] @ rest" by simp
  then show ?thesis using checks_no_insert by blast
next
  case (insert_failed cs c')
  with assms(2,3) have "map SelectByCode cs @ [InsertRow c'] = ops @ [InsertRow c] @ rest"
    by simp
  from checks_then_insert [OF this] insert_failed assms(2) show ?thesis by auto
next
  case (created cs c' tv av mv)
  with assms(2,3) have "map SelectByCode cs @ [InsertRow c'] = ops @ [InsertRow c] @ rest"
    by simp
  from checks_then_insert [OF this] have "c' = c" by simp
  with created(7) assms(4) show ?thesis by simp
qed

theorem send_duplicate_insert_fatal_witness:
  "valid_send req0 \<and>
   [SelectByCode ''0000000'', SelectByCode ''0000000'', SelectByCode ''0000000'',
    SelectByCode ''0000000'', SelectByCode ''0000000'', InsertRow ''0000000''] =
     calls store1 @
       [SelectByCode ''0000000'', SelectByCode ''0000000'', SelectByCode ''0000000'',
        SelectByCode ''0000000'', SelectByCode ''0000000''] @ [InsertRow ''0000000''] @ [] \<and>
   ''0000000'' \<in> set (map code (rows store1)) \<and>
   fst (send_handler env_same req0 store1) = json 500 (ErrorBody ''Failed to save message'') \<and>
   rows (snd (send_handler env_same req0 store1)) = rows store1"
proof -
  have c: "calls \<lparr>rows = [row1], next_id = 2,
       calls = [SelectByCode ''0000000'', SelectByCode ''0000000'', SelectByCode ''0000000'',
                SelectByCode ''0000000'', SelectByCode ''0000000'', InsertRow ''0000000'']\<rparr> =
     calls store1 @
       [SelectByCode ''0000000'', SelectByCode ''0000000'', SelectByCode ''0000000'',
        SelectByCode ''0000000'', SelectByCode ''0000000''] @ [InsertRow ''0000000''] @ []"
    by (simp add: store1_def)
  have m: "''0000000'' \<in> set (map code (rows store1))"
    by (simp add: store1_def row1_def)
  from send_duplicate_insert_fatal [OF valid_req0 run_same c m] c m valid_req0 run_same
  show ?thesis by (simp add: store1_def)
qed

text \<open>
  C2 as stated fails: every code drawn is 0000000 and the store holds a row with it; the
  insert of 0000000 is refused by the uniqueness constraint, the handler makes no further
  call and answers 500.
\<close>

theorem send_duplicate_insert_counterexample:
  "fst (insert_row env_same (Some ''t'') (Some ''a'') ''0000000'' (Some ''hello'') 604801000
          \<lparr>rows = [row1], next_id = 2,
           calls = [SelectByCode ''0000000'', SelectByCode ''0000000'',
                    SelectByCode ''0000000'', SelectByCode ''0000000'',
                    SelectByCode ''0000000'']\<rparr>) = Inl UniqueViolation \<and>
   send_handler env_same req0 store1 =
     (json 500 (ErrorBody ''Failed to save message''),
      \<lparr>rows = [row1], next_id = 2,
       calls = [SelectByCode ''0000000'', SelectByCode ''0000000'', SelectByCode ''0000000'',
                SelectByCode ''0000000'', SelectByCode ''0000000'', InsertRow ''0000000'']\<rparr>)"
  by code_simp

subsection \<open>Sending: the expiry\<close>

text \<open>
  C5, as the handler has it. The row a successful send stores has \<open>expires_at\<close> equal to
  the handler's clock reading plus 7 * 24 * 60 * 60 * 1000 milliseconds, and \<open>created_at\<close>
  equal to the store's clock at the insert; so \<open>expires_at\<close> is \<open>created_at\<close> plus seven
  days exactly when the two clock readings agree.
\<close>

theorem send_expiry:
  assumes "valid_send req" and "send_handler e req st = (resp, st')" and "status resp = 200"
  shows "\<exists>r. rows st' = rows st @ [r] \<and>
              body resp = Created (id_col r) (code r) (expires_at r) \<and>
              expires_at r = clock e + 7 * 24 * 60 * 60 * 1000 \<and>
              created_at r = db_clock e \<and>
              (expires_at r = created_at r + 7 * 24 * 60 * 60 * 1000 \<longleftrightarrow> db_clock e = clock e)"
  using assms(1)
proof (cases rule: send_handler_cases [where e = e and st = st])
  case (check_failed cs)
  with assms(2,3) show ?thesis by simp
next
  case (insert_failed cs c)
  with assms(2,3) show ?thesis by simp
next
  case (created cs c tv av mv)
  with assms(2) show ?thesis by auto
qed

theorem send_expiry_witness:
  "valid_send req0 \<and>
   send_handler env_mixed req0 store1 =
     (json 200 (Created 2 ''3AHOVcj'' 604801000),
      \<lparr>rows = [row1,
               \<lparr>id_col = 2, topic = ''t'', author = ''a'', code = ''3AHOVcj'',
                message = ''hello'', created_at = 1000, expires_at = 604801000\<rparr>],
       next_id = 3, calls = [SelectByCode ''3AHOVcj'', InsertRow ''3AHOVcj'']\<rparr>) \<and>
   status (json 200 (Created 2 ''3AHOVcj'' 604801000)) = 200 \<and>
   (\<exists>r. [row1,
          \<lparr>id_col = 2, topic = ''t'', author = ''a'', code = ''3AHOVcj'',
           message = ''hello'', created_at = 1000, expires_at = 604801000\<rparr>] =
           rows store1 @ [r] \<and>
        expires_at r = clock env_mixed + 7 * 24 * 60 * 60 * 1000 \<and>
        created_at r = db_clock env_mixed)"
proof -
  have s: "status (json 200 (Created 2 ''3AHOVcj'' 604801000)) = 200" by simp
  from send_expiry [OF valid_req0 run_mixed s] valid_req0 run_mixed s
  show ?thesis by simp
qed

text \<open>
  C5 as stated fails: the handler reads its clock at 1000, the insert reaches the store
  25 ms later and the store stamps the row at 1025, so the stored \<open>expires_at\<close> is 25 ms
  short of \<open>created_at\<close> plus seven days.
\<close>

theorem send_expiry_counterexample:
  "send_handler env_fresh req0 store0 =
     (json 200 (Created 1 ''0000000'' 604801000),
      \<lparr>rows = [\<lparr>id_col = 1, topic = ''t'', author = ''a'', code = ''0000000'',
                message = ''hello'', created_at = 1025, expires_at = 604801000\<rparr>],
       next_id = 2, calls = [SelectByCode ''0000000'', InsertRow ''0000000'']\<rparr>) \<and>
   (1025 + 7 * 24 * 60 * 60 * 1000) - (604801000 :: int) = 25"
  by code_simp

subsection \<open>Sending: the shape of the code\<close>

text \<open>
  C7. A valid send that succeeds returns a code of length 7 whose characters all belong
  to the alphabet, and the row it stored carries that code; the alphabet has 62 symbols,
  all different: the ten digits, the upper case letters and the lower case letters.
\<close>

theorem send_code_shape:
  assumes "valid_send req" and "send_handler e req st = (resp, st')" and "status resp = 200"
  shows "\<exists>i c x. body resp = Created i c x \<and> code (last (rows st')) = c \<and>
           length c = 7 \<and> set c \<subseteq> set alphabet \<and> length alphabet = 62 \<and> distinct alphabet \<and>
           alphabet = ''0123456789'' @ ''ABCDEFGHIJKLMNOPQRSTUVWXYZ'' @
                      ''abcdefghijklmnopqrstuvwxyz''"
  using assms(1)
proof (cases rule: send_handler_cases [where e = e and st = st])
  case (check_failed cs)
  with assms(2,3) show ?thesis by simp
next
  case (insert_failed cs c)
  with assms(2,3) show ?thesis by simp
next
  case (created cs c tv av mv)
  moreover have "alphabet = ''0123456789'' @ ''ABCDEFGHIJKLMNOPQRSTUVWXYZ'' @
                      ''abcdefghijklmnopqrstuvwxyz''"
    by (simp add: alphabet_def)
  ultimately show ?thesis using assms(2) by (simp add: length_alphabet distinct_alphabet)
qed

theorem send_code_shape_witness:
  "valid_send req0 \<and>
   fst (send_handler env_mixed req0 store1) = json 200 (Created 2 ''3AHOVcj'' 604801000) \<and>
   (\<exists>i c x. Created 2 ''3AHOVcj'' 604801000 = Created i c x \<and>
      length c = 7 \<and> set c \<subseteq> set alphabet)"
proof -
  have s: "status (json 200 (Created 2 ''3AHOVcj'' 604801000)) = 200" by simp
  from send_code_shape [OF valid_req0 run_mixed s] valid_req0 run_mixed
  show ?thesis by simp
qed

subsection \<open>Sending: the length bound\<close>

text \<open>
  C6. With a non-empty topic and author, a message of exactly 10000 characters passes
  validation: the response is not a 400, the handler goes on to the store, and the send
  ends in 200 when the store answers its two calls and holds no row with the first code
  drawn. A message of 10001 characters is answered 400 "Message too long (max 10k chars)"
  with the store left as it was: no row changed and no call made.
\<close>

theorem send_length_boundary:
  assumes "truthy (body_topic req)" and "truthy (body_author req)"
    and "body_message req = Some m"
  shows "(length m = 10000 \<longrightarrow>
            status (fst (send_handler e req st)) \<noteq> 400 \<and>
            calls (snd (send_handler e req st)) \<noteq> calls st \<and>
            (\<not> fault e (length (calls st)) \<and> \<not> fault e (length (calls st) + 1) \<and>
             fst (nanoid (rnd e)) \<notin> set (map code (rows st)) \<longrightarrow>
               status (fst (send_handler e req st)) = 200)) \<and>
         (length m = 10001 \<longrightarrow>
            send_handler e req st =
              (json 400 (ErrorBody ''Message too long (max 10k chars)''), st))"
proof (intro conjI impI)
  assume "length m = 10001"
  moreover from this have "m \<noteq> []" by auto
  ultimately show "send_handler e req st =
      (json 400 (ErrorBody ''Message too long (max 10k chars)''), st)"
    using assms by (simp add: send_handler_def String_js_def truthy_def)
next
  assume len: "length m = 10000"
  then have "m \<noteq> []" by auto
  with assms len have v: "valid_send req"
    by (simp add: valid_send_def truthy_def String_js_def)
  show "status (fst (send_handler e req st)) \<noteq> 400"
    using v by (cases rule: send_handler_cases [where e = e and st = st]) simp_all
  show "calls (snd (send_handler e req st)) \<noteq> calls st"
    using v
  proof (cases rule: send_handler_cases [where e = e and st = st])
    case (check_failed cs)
    then show ?thesis by simp
  next
    case (insert_failed cs c)
    then show ?thesis by simp
  next
    case (created cs c tv av mv)
    then show ?thesis by simp
  qed
  assume "\<not> fault e (length (calls st)) \<and> \<not> fault e (length (calls st) + 1) \<and>
          fst (nanoid (rnd e)) \<notin> set (map code (rows st))"
  then show "status (fst (send_handler e req st)) = 200"
    using send_handler_first_try [OF v, of e st] by simp
qed

theorem send_length_boundary_witness:
  "status (fst (send_handler env_fresh (long_body 10000) store0)) = 200 \<and>
   calls (snd (send_handler env_fresh (long_body 10000) store0)) \<noteq> calls store0 \<and>
   send_handler env_fresh (long_body 10001) store0 =
     (json 400 (ErrorBody ''Message too long (max 10k chars)''), store0)"
proof -
  have t: "truthy (body_topic (long_body n))" "truthy (body_author (long_body n))"
    "body_message (long_body n) = Some (replicate n (CHR ''x''))" for n
    by (simp_all add: long_body_def truthy_def)
  have f: "\<not> fault env_fresh (length (calls store0))"
    "\<not> fault env_fresh (length (calls store0) + 1)"
    "fst (nanoid (rnd env_fresh)) \<notin> set (map code (rows store0))"
    by (simp_all add: env_fresh_def store0_def)
  from send_length_boundary [OF t, of 10000 env_fresh store0]
    send_length_boundary [OF t, of 10001 env_fresh store0] f
  show ?thesis by simp
qed

subsection \<open>Receiving: only live messages\<close>

lemma select_live_store: "snd (select_live e c now st) = record_call (SelectLive c now) st"
  by (simp add: select_live_def split: list.splits)

lemma select_live_Inr:
  assumes "fst (select_live e c now st) = Inr r"
  shows "r \<in> set (rows st) \<and> code r = c \<and> now < expires_at r"
proof -
  from assms have "filter (\<lambda>r. code r = c \<and> expires_at r > now) (rows st) = [r]"
    by (auto simp add: select_live_def split: if_splits list.splits)
  then have "r \<in> set (filter (\<lambda>r. code r = c \<and> expires_at r > now) (rows st))" by simp
  then show ?thesis by simp
qed

lemma select_live_none:
  assumes "\<forall>r \<in> set (rows st). code r = c \<longrightarrow> expires_at r \<le> now"
  shows "\<exists>err. fst (select_live e c now st) = Inl err"
proof -
  from assms have "filter (\<lambda>r. code r = c \<and> expires_at r > now) (rows st) = []"
    by (auto simp add: filter_empty_conv)
  then show ?thesis by (simp add: select_live_def)
qed

lemma receive_handler_rows: "rows (snd (receive_handler e req st)) = rows st"
  using select_live_store [of e "String_js (body_code req)" "clock e" st]
  by (cases "select_live e (String_js (body_code req)) (clock e) st")
     (auto simp add: receive_handler_def split: sum.splits)

lemma receive_handler_200:
  assumes "status (fst (receive_handler e req st)) = 200"
  shows "\<exists>r \<in> set (rows st). body_code req = Some (code r) \<and> clock e < expires_at r \<and>
           fst (receive_handler e req st) =
             json 200 (MessageBody (id_col r) (topic r) (author r) (message r)
                         (created_at r) (expires_at r))"
proof -
  from assms have t: "truthy (body_code req)"
    by (auto simp add: receive_handler_def split: if_splits)
  then obtain c where c: "body_code req = Some c" by (auto dest: truthy_Some)
  obtain res st' where s: "select_live e c (clock e) st = (res, st')"
    by (cases "select_live e c (clock e) st")
  show ?thesis
  proof (cases res)
    case (Inl err)
    with assms t c s show ?thesis by (simp add: receive_handler_def String_js_def)
  next
    case (Inr r)
    with s have "fst (select_live e c (clock e) st) = Inr r" by simp
    from select_live_Inr [OF this] Inr t c s show ?thesis
      by (auto simp add: receive_handler_def String_js_def)
  qed
qed

lemma receive_handler_404:
  assumes "truthy (body_code req)"
    and "\<forall>r \<in> set (rows st). body_code req = Some (code r) \<longrightarrow> expires_at r \<le> clock e"
  shows "fst (receive_handler e req st) = json 404 (ErrorBody ''Invalid or expired code'')"
proof -
  from assms(1) obtain c where c: "body_code req = Some c" by (auto dest: truthy_Some)
  with assms(2) have "\<forall>r \<in> set (rows st). code r = c \<longrightarrow> expires_at r \<le> clock e" by auto
  from select_live_none [OF this, of e] obtain err where
    "fst (select_live e c (clock e) st) = Inl err" by blast
  with assms(1) c show ?thesis
    by (cases "select_live e c (clock e) st") (simp add: receive_handler_def String_js_def)
qed

lemma receive_route_passed:
  "fst (receive_route now ip e req (lim, st)) \<noteq> json 429 limit_message \<Longrightarrow>
   fst (receive_route now ip e req (lim, st)) = fst (receive_handler e req st)"
  by (simp add: receive_route_def receiveLimiter_def split: if_splits)

text \<open>
  C3. The receive handler answers 200 with a message only for a row of the store with the
  requested code whose \<open>expires_at\<close> is strictly greater than the handler's clock; when
  every row with the requested code has \<open>expires_at\<close> at or before the clock (the row is
  still in the store, or there is none), the answer is 404 "Invalid or expired code". The
  route answers 200 only with the handler's answer, and the handler leaves the rows as
  they were.
\<close>

theorem receive_live_only:
  "(status (fst (receive_handler e req st)) = 200 \<longrightarrow>
      (\<exists>r \<in> set (rows st). body_code req = Some (code r) \<and> clock e < expires_at r \<and>
         fst (receive_handler e req st) =
           json 200 (MessageBody (id_col r) (topic r) (author r) (message r)
                       (created_at r) (expires_at r)))) \<and>
   (truthy (body_code req) \<and>
    (\<forall>r \<in> set (rows st). body_code req = Some (code r) \<longrightarrow> expires_at r \<le> clock e) \<longrightarrow>
      fst (receive_handler e req st) = json 404 (ErrorBody ''Invalid or expired code'')) \<and>
   (status (fst (receive_route now ip e req (lim, st))) = 200 \<longrightarrow>
      fst (receive_route now ip e req (lim, st)) = fst (receive_handler e req st)) \<and>
   rows (snd (receive_handler e req st)) = rows st"
proof (intro conjI impI)
  assume "status (fst (receive_handler e req st)) = 200"
  then show "\<exists>r \<in> set (rows st). body_code req = Some (code r) \<and> clock e < expires_at r \<and>
         fst (receive_handler e req st) =
           json 200 (MessageBody (id_col r) (topic r) (author r) (message r)
                       (created_at r) (expires_at r))"
    by (rule receive_handler_200)
next
  assume "truthy (body_code req) \<and>
    (\<forall>r \<in> set (rows st). body_code req = Some (code r) \<longrightarrow> expires_at r \<le> clock e)"
  then show "fst (receive_handler e req st) = json 404 (ErrorBody ''Invalid or expired code'')"
    using receive_handler_404 by blast
next
  assume "status (fst (receive_route now ip e req (lim, st))) = 200"
  then have "fst (receive_route now ip e req (lim, st)) \<noteq> json 429 limit_message" by auto
  then show "fst (receive_route now ip e req (lim, st)) = fst (receive_handler e req st)"
    by (rule receive_route_passed)
next
  show "rows (snd (receive_handler e req st)) = rows st" by (rule receive_handler_rows)
qed

theorem receive_live_only_witness:
  "fst (receive_handler (env_clock 604799999) (recv ''0000000'') store1) =
     json 200 (MessageBody 1 ''t'' ''a'' ''hello'' 0 604800000) \<and>
   truthy (body_code (recv ''0000000'')) \<and>
   fst (receive_handler (env_clock 604800000) (recv ''0000000'') store1) =
     json 404 (ErrorBody ''Invalid or expired code'') \<and>
   rows (snd (receive_handler (env_clock 604800000) (recv ''0000000'') store1)) = rows store1"
proof -
  have live: "fst (receive_handler (env_clock 604799999) (recv ''0000000'') store1) =
     json 200 (MessageBody 1 ''t'' ''a'' ''hello'' 0 604800000)"
    by code_simp
  have t: "truthy (body_code (recv ''0000000''))"
    by (simp add: recv_def truthy_def)
  have x: "\<forall>r \<in> set (rows store1).
      body_code (recv ''0000000'') = Some (code r) \<longrightarrow> expires_at r \<le> clock (env_clock 604800000)"
    by (simp add: store1_def row1_def env_clock_def)
  from receive_live_only [of "env_clock 604800000" "recv ''0000000''" store1] live t x
  show ?thesis by simp
qed

subsection \<open>Receiving: expired and unknown codes look the same\<close>

text \<open>
  C4. A receive for a code that the store holds only in rows that have expired, and a
  receive for a code the store holds no row for, get the same response: 404 with the
  payload "Invalid or expired code", from the handler and so from the route, whatever
  else the two requests read from outside.
\<close>

theorem receive_indistinguishable:
  assumes "c1 \<noteq> []" and "c2 \<noteq> []"
    and "c1 \<in> set (map code (rows st))"
    and "\<forall>r \<in> set (rows st). code r = c1 \<longrightarrow> expires_at r \<le> clock e1"
    and "c2 \<notin> set (map code (rows st))"
  shows "fst (receive_handler e1 \<lparr>body_code = Some c1\<rparr> st) =
           json 404 (ErrorBody ''Invalid or expired code'') \<and>
         fst (receive_handler e2 \<lparr>body_code = Some c2\<rparr> st) =
           json 404 (ErrorBody ''Invalid or expired code'') \<and>
         fst (receive_route now ip e1 \<lparr>body_code = Some c1\<rparr> (lim, st)) =
           fst (receive_route now ip e2 \<lparr>body_code = Some c2\<rparr> (lim, st))"
proof -
  have a: "fst (receive_handler e1 \<lparr>body_code = Some c1\<rparr> st) =
           json 404 (ErrorBody ''Invalid or expired code'')"
    using assms(1,4) by (intro receive_handler_404) (auto simp add: truthy_def)
  have b: "fst (receive_handler e2 \<lparr>body_code = Some c2\<rparr> st) =
           json 404 (ErrorBody ''Invalid or expired code'')"
    using assms(2,5) by (intro receive_handler_404) (auto simp add: truthy_def)
  from a b show ?thesis
    by (simp add: receive_route_def split: prod.splits option.splits)
qed

theorem receive_indistinguishable_witness:
  "''0000000'' \<in> set (map code (rows store1)) \<and>
   ''ZZZZZZZ'' \<notin> set (map code (rows store1)) \<and>
   fst (receive_handler (env_clock 604800000) \<lparr>body_code = Some ''0000000''\<rparr> store1) =
     json 404 (ErrorBody ''Invalid or expired code'') \<and>
   fst (receive_handler (env_clock 604800000) \<lparr>body_code = Some ''ZZZZZZZ''\<rparr> store1) =
     json 404 (ErrorBody ''Invalid or expired code'') \<and>
   fst (receive_route 604800000 ''10.0.0.7'' (env_clock 604800000)
          \<lparr>body_code = Some ''0000000''\<rparr> (Map.empty, store1)) =
   fst (receive_route 604800000 ''10.0.0.7'' (env_clock 604800000)
          \<lparr>body_code = Some ''ZZZZZZZ''\<rparr> (Map.empty, store1))"
proof -
  have a: "''0000000'' \<noteq> []" "''ZZZZZZZ'' \<noteq> []" by simp_all
  have m: "''0000000'' \<in> set (map code (rows store1))"
    by (simp add: store1_def row1_def)
  have x: "\<forall>r \<in> set (rows store1).
      code r = ''0000000'' \<longrightarrow> expires_at r \<le> clock (env_clock 604800000)"
    by (simp add: store1_def row1_def env_clock_def)
  have n: "''ZZZZZZZ'' \<notin> set (map code (rows store1))"
    by (simp add: store1_def row1_def)
  from receive_indistinguishable [OF a m x n, of "env_clock 604800000" 604800000
      "''10.0.0.7''" Map.empty] m n
  show ?thesis by simp
qed

subsection \<open>Receiving: the rate limit\<close>

lemma increment_in_window:
  "lim ip = Some (n, reset) \<Longrightarrow> now < reset \<Longrightarrow>
   increment now ip lim = (n + 1, lim(ip \<mapsto> (n + 1, reset)))"
  by (simp add: increment_def)

lemma increment_new_window:
  "\<not> window_open lim ip now \<Longrightarrow> increment now ip lim = (1, lim(ip \<mapsto> (1, now + windowMs)))"
  by (auto simp add: increment_def window_open_def split: option.splits)

lemma increment_other: "ip' \<noteq> ip \<Longrightarrow> snd (increment now ip' lim) ip = lim ip"
  by (auto simp add: increment_def split: option.splits)

lemma receive_route_limiter:
  "fst (snd (receive_route now ip e req s)) = snd (increment now ip (fst s))"
  by (simp add: receive_route_def receiveLimiter_def)

lemma receive_route_rejected:
  assumes "lim ip = Some (n, reset)" and "5 \<le> n" and "now < reset"
  shows "receive_route now ip e req (lim, st) =
           (json 429 limit_message, lim(ip \<mapsto> (n + 1, reset)), st)"
  using assms by (simp add: receive_route_def receiveLimiter_def increment_in_window max_hits_def)

lemma receive_all_count:
  "fst s ip = Some (n, reset) \<Longrightarrow> \<forall>y \<in> set xs. addr y = ip \<longrightarrow> at y < reset \<Longrightarrow>
   fst (receive_all xs s) ip = Some (n + length (filter (\<lambda>y. addr y = ip) xs), reset)"
proof (induction xs arbitrary: s n)
  case Nil
  then show ?case by simp
next
  case (Cons x xs)
  let ?s' = "snd (receive_route (at x) (addr x) (env_of x) (body_of x) s)"
  have l: "fst ?s' = snd (increment (at x) (addr x) (fst s))" by (rule receive_route_limiter)
  show ?case
  proof (cases "addr x = ip")
    case True
    with Cons.prems have "at x < reset" by simp
    with Cons.prems(1) True l have "fst ?s' ip = Some (n + 1, reset)"
      by (simp add: increment_in_window)
    from Cons.IH [OF this] Cons.prems(2) True show ?thesis by simp
  next
    case False
    with l Cons.prems(1) have "fst ?s' ip = Some (n, reset)"
      by (simp add: increment_other)
    from Cons.IH [OF this] Cons.prems(2) False show ?thesis by simp
  qed
qed

text \<open>
  C8. When the limiter has counted 5 or more requests of an address in its window and
  the window has not ended, a further receive request of that address is answered 429
  with the limiter's payload, and the store is left as it was: no call is made. In
  particular, when a request of an address opens a window and at least four more of its
  requests follow within 60 seconds of it (requests of other addresses in between or
  not), a further request of that address within the 60 seconds is answered so.
\<close>

theorem receive_rate_limit:
  "(lim ip = Some (n, reset) \<and> 5 \<le> n \<and> now < reset \<longrightarrow>
      receive_route now ip e req (lim, st) =
        (json 429 limit_message, lim(ip \<mapsto> (n + 1, reset)), st)) \<and>
   (\<not> window_open lim ip (at x) \<and> addr x = ip \<and>
    (\<forall>y \<in> set xs. addr y = ip \<longrightarrow> at y < at x + windowMs) \<and>
    4 \<le> length (filter (\<lambda>y. addr y = ip) xs) \<and> now < at x + windowMs \<longrightarrow>
      fst (receive_route now ip e req (receive_all (x # xs) (lim, st))) =
        json 429 limit_message \<and>
      snd (snd (receive_route now ip e req (receive_all (x # xs) (lim, st)))) =
        snd (receive_all (x # xs) (lim, st)))"
proof (intro conjI impI)
  assume "lim ip = Some (n, reset) \<and> 5 \<le> n \<and> now < reset"
  then show "receive_route now ip e req (lim, st) =
        (json 429 limit_message, lim(ip \<mapsto> (n + 1, reset)), st)"
    using receive_route_rejected by blast
next
  assume a: "\<not> window_open lim ip (at x) \<and> addr x = ip \<and>
    (\<forall>y \<in> set xs. addr y = ip \<longrightarrow> at y < at x + windowMs) \<and>
    4 \<le> length (filter (\<lambda>y. addr y = ip) xs) \<and> now < at x + windowMs"
  let ?s1 = "snd (receive_route (at x) (addr x) (env_of x) (body_of x) (lim, st))"
  let ?k = "length (filter (\<lambda>y. addr y = ip) xs)"
  have "fst ?s1 = snd (increment (at x) (addr x) lim)"
    using receive_route_limiter [of "at x" "addr x" "env_of x" "body_of x" "(lim, st)"] by simp
  with a have "fst ?s1 ip = Some (1, at x + windowMs)"
    by (simp add: increment_new_window)
  from receive_all_count [OF this, of xs] a
  have c: "fst (receive_all (x # xs) (lim, st)) ip = Some (1 + ?k, at x + windowMs)"
    by simp
  obtain lim' st' where s: "receive_all (x # xs) (lim, st) = (lim', st')"
    by (cases "receive_all (x # xs) (lim, st)")
  with c have "lim' ip = Some (1 + ?k, at x + windowMs)" by simp
  moreover from a have "5 \<le> 1 + ?k" and "now < at x + windowMs" by simp_all
  ultimately have "receive_route now ip e req (lim', st') =
      (json 429 limit_message, lim'(ip \<mapsto> (1 + ?k + 1, at x + windowMs)), st')"
    by (rule receive_route_rejected)
  with s show "fst (receive_route now ip e req (receive_all (x # xs) (lim, st))) =
      json 429 limit_message"
    and "snd (snd (receive_route now ip e req (receive_all (x # xs) (lim, st)))) =
      snd (receive_all (x # xs) (lim, st))"
    by simp_all
qed

theorem receive_rate_limit_witness:
  "receive_route 59999 ''10.0.0.7'' (env_clock 59999) (recv ''0000000'')
     ([''10.0.0.7'' \<mapsto> (5, 60000)], store1) =
     (json 429 limit_message, [''10.0.0.7'' \<mapsto> (6, 60000)], store1) \<and>
   fst (receive_route 59999 ''10.0.0.7'' (env_clock 59999) (recv ''0000000'')
          (receive_all [knock 0, knock 1000, knock 2000, knock 3000, knock 4000]
             (Map.empty, store1))) = json 429 limit_message \<and>
   snd (snd (receive_route 59999 ''10.0.0.7'' (env_clock 59999) (recv ''0000000'')
          (receive_all [knock 0, knock 1000, knock 2000, knock 3000, knock 4000]
             (Map.empty, store1)))) =
     snd (receive_all [knock 0, knock 1000, knock 2000, knock 3000, knock 4000]
            (Map.empty, store1))"
proof -
  have a: "[''10.0.0.7'' \<mapsto> (5, 60000 :: int)] ''10.0.0.7'' = Some (5, 60000) \<and>
           (5 :: nat) \<le> 5 \<and> (59999 :: int) < 60000"
    by simp
  have b: "\<not> window_open Map.empty ''10.0.0.7'' (at (knock 0)) \<and>
     addr (knock 0) = ''10.0.0.7'' \<and>
     (\<forall>y \<in> set [knock 1000, knock 2000, knock 3000, knock 4000].
        addr y = ''10.0.0.7'' \<longrightarrow> at y < at (knock 0) + windowMs) \<and>
     4 \<le> length (filter (\<lambda>y. addr y = ''10.0.0.7'')
                   [knock 1000, knock 2000, knock 3000, knock 4000]) \<and>
     59999 < at (knock 0) + windowMs"
    by (simp add: window_open_def knock_def windowMs_def)
  from receive_rate_limit [where lim = "[''10.0.0.7'' \<mapsto> (5, 60000)]" and ip = "''10.0.0.7''"
      and n = 5 and reset = 60000 and now = 59999 and st = store1
      and e = "env_clock 59999" and req = "recv ''0000000''"] a
  have 1: "receive_route 59999 ''10.0.0.7'' (env_clock 59999) (recv ''0000000'')
     ([''10.0.0.7'' \<mapsto> (5, 60000)], store1) =
     (json 429 limit_message, [''10.0.0.7'' \<mapsto> (6, 60000)], store1)"
    by simp
  from receive_rate_limit [where lim = Map.empty and ip = "''10.0.0.7''" and x = "knock 0"
      and xs = "[knock 1000, knock 2000, knock 3000, knock 4000]" and now = 59999
      and st = store1 and e = "env_clock 59999" and req = "recv ''0000000''"] b
  have 2: "fst (receive_route 59999 ''10.0.0.7'' (env_clock 59999) (recv ''0000000'')
          (receive_all [knock 0, knock 1000, knock 2000, knock 3000, knock 4000]
             (Map.empty, store1))) = json 429 limit_message \<and>
   snd (snd (receive_route 59999 ''10.0.0.7'' (env_clock 59999) (recv ''0000000'')
          (receive_all [knock 0, knock 1000, knock 2000, knock 3000, knock 4000]
             (Map.empty, store1)))) =
     snd (receive_all [knock 0, knock 1000, knock 2000, knock 3000, knock 4000]
            (Map.empty, store1))"
    by blast
  from 1 2 show ?thesis by blast
qed

subsection \<open>Administration\<close>

lemma reads_bigint_iff: "reads_bigint e t \<longleftrightarrow> (\<exists>i. as_bigint e t = Some i \<and> bigint_range i)"
  by (simp add: reads_bigint_def split: option.splits)

lemma delete_by_id_refused:
  "\<not> reads_bigint e t \<Longrightarrow>
   \<exists>err. delete_by_id e t st = (Inl err, record_call (DeleteById t) st)"
  by (auto simp add: reads_bigint_def delete_by_id_def split: option.splits)

lemma delete_by_id_done:
  "\<not> fault e (length (calls st)) \<Longrightarrow> as_bigint e t = Some i \<Longrightarrow> bigint_range i \<Longrightarrow>
   delete_by_id e t st =
     (Inr (), record_call (DeleteById t) (st\<lparr>rows := filter (\<lambda>r. id_col r \<noteq> i) (rows st)\<rparr>))"
  by (simp add: delete_by_id_def)

lemma delete_by_id_fault:
  "fault e (length (calls st)) \<Longrightarrow>
   delete_by_id e t st = (Inl StoreFault, record_call (DeleteById t) st)"
  by (simp add: delete_by_id_def)

lemma requireAdmin_pass: "truthy k \<Longrightarrow> hdr = k \<Longrightarrow> requireAdmin k hdr = None"
  by (simp add: requireAdmin_def)

lemma requireAdmin_reject:
  "\<not> (truthy k \<and> hdr = k) \<Longrightarrow> requireAdmin k hdr = Some (json 401 (ErrorBody ''Unauthorized''))"
  by (auto simp add: requireAdmin_def)

lemma admin_delete_status:
  assumes "truthy k" and "hdr = k"
  shows "status (fst (admin_delete k hdr e i st)) =
           (if \<not> fault e (length (calls st)) \<and> reads_bigint e i then 200 else 500)"
proof (cases "reads_bigint e i")
  case False
  from delete_by_id_refused [OF False, of st] obtain err where
    "delete_by_id e i st = (Inl err, record_call (DeleteById i) st)" by blast
  with assms False show ?thesis
    by (simp add: admin_delete_def requireAdmin_pass)
next
  case True
  then obtain n where n: "as_bigint e i = Some n" "bigint_range n"
    by (auto simp add: reads_bigint_iff)
  show ?thesis
  proof (cases "fault e (length (calls st))")
    case f: True
    with assms show ?thesis
      by (simp add: admin_delete_def requireAdmin_pass delete_by_id_fault)
  next
    case f: False
    with assms True n show ?thesis
      by (simp add: admin_delete_def requireAdmin_pass delete_by_id_done)
  qed
qed

text \<open>
  C9. An admin request, list or delete, is answered 401 exactly when the configured key
  is unset or empty or the header differs from it; it is answered 200 exactly when the
  key is non-empty, the header equals it and the store call succeeds (for the delete:
  the call does not fail and the store reads the id as a number of the column). With the
  key unset or empty every request is answered 401 and the store is left as it was, also
  a request that sends no header.
\<close>

theorem admin_auth:
  "(status (fst (admin_list k hdr e st)) = 401 \<longleftrightarrow> \<not> (truthy k \<and> hdr = k)) \<and>
   (status (fst (admin_delete k hdr e i st)) = 401 \<longleftrightarrow> \<not> (truthy k \<and> hdr = k)) \<and>
   (status (fst (admin_list k hdr e st)) = 200 \<longleftrightarrow> truthy k \<and> hdr = k \<and> \<not> fault e (length (calls st))) \<and>
   (status (fst (admin_delete k hdr e i st)) = 200 \<longleftrightarrow>
      truthy k \<and> hdr = k \<and> \<not> fault e (length (calls st)) \<and> reads_bigint e i) \<and>
   admin_list None hdr e st = (json 401 (ErrorBody ''Unauthorized''), st) \<and>
   admin_list (Some []) hdr e st = (json 401 (ErrorBody ''Unauthorized''), st) \<and>
   admin_delete None hdr e i st = (json 401 (ErrorBody ''Unauthorized''), st) \<and>
   admin_delete (Some []) hdr e i st = (json 401 (ErrorBody ''Unauthorized''), st)"
proof -
  have unset:
    "admin_list None hdr e st = (json 401 (ErrorBody ''Unauthorized''), st) \<and>
     admin_list (Some []) hdr e st = (json 401 (ErrorBody ''Unauthorized''), st) \<and>
     admin_delete None hdr e i st = (json 401 (ErrorBody ''Unauthorized''), st) \<and>
     admin_delete (Some []) hdr e i st = (json 401 (ErrorBody ''Unauthorized''), st)"
    by (simp add: admin_list_def admin_delete_def requireAdmin_def truthy_def)
  have gate:
    "(status (fst (admin_list k hdr e st)) = 401 \<longleftrightarrow> \<not> (truthy k \<and> hdr = k)) \<and>
     (status (fst (admin_delete k hdr e i st)) = 401 \<longleftrightarrow> \<not> (truthy k \<and> hdr = k)) \<and>
     (status (fst (admin_list k hdr e st)) = 200 \<longleftrightarrow>
        truthy k \<and> hdr = k \<and> \<not> fault e (length (calls st))) \<and>
     (status (fst (admin_delete k hdr e i st)) = 200 \<longleftrightarrow>
        truthy k \<and> hdr = k \<and> \<not> fault e (length (calls st)) \<and> reads_bigint e i)"
  proof (cases "truthy k \<and> hdr = k")
    case False
    then have "requireAdmin k hdr = Some (json 401 (ErrorBody ''Unauthorized''))"
      by (rule requireAdmin_reject)
    with False show ?thesis
      by (auto simp add: admin_list_def admin_delete_def)
  next
    case True
    then have p: "requireAdmin k hdr = None" by (simp add: requireAdmin_pass)
    have l: "status (fst (admin_list k hdr e st)) =
               (if fault e (length (calls st)) then 500 else 200)"
      using p by (simp add: admin_list_def select_all_def)
    have d: "status (fst (admin_delete k hdr e i st)) =
               (if \<not> fault e (length (calls st)) \<and> reads_bigint e i then 200 else 500)"
      using True by (simp add: admin_delete_status)
    from True l d show ?thesis by simp
  qed
  from gate unset show ?thesis by blast
qed

theorem admin_auth_witness:
  "status (fst (admin_list (Some ''s3cret'') (Some ''s3cret'') (env_clock 0) store1)) = 200 \<and>
   status (fst (admin_delete (Some ''s3cret'') (Some ''s3cret'') (env_clock 0) ''1'' store1)) = 200 \<and>
   status (fst (admin_list (Some ''s3cret'') (Some ''guess'') (env_clock 0) store1)) = 401 \<and>
   status (fst (admin_delete (Some ''s3cret'') None (env_clock 0) ''1'' store1)) = 401 \<and>
   admin_list None None (env_clock 0) store1 = (json 401 (ErrorBody ''Unauthorized''), store1) \<and>
   admin_delete (Some []) (Some []) (env_clock 0) ''1'' store1 =
     (json 401 (ErrorBody ''Unauthorized''), store1)"
proof -
  have r: "reads_bigint (env_clock 0) ''1''"
    by (simp add: reads_bigint_def env_clock_def decimal_def bigint_range_def)
  from r admin_auth [of "Some ''s3cret''" "Some ''s3cret''" "env_clock 0" store1 "''1''"]
    admin_auth [of "Some ''s3cret''" "Some ''guess''" "env_clock 0" store1 "''1''"]
    admin_auth [of "Some ''s3cret''" None "env_clock 0" store1 "''1''"]
    admin_auth [of None None "env_clock 0" store1 "''1''"]
    admin_auth [of "Some []" "Some []" "env_clock 0" store1 "''1''"]
  show ?thesis by (simp add: truthy_def env_clock_def store1_def)
qed




end
